theory Spec2Isabelle
  imports Main "HOL-Library.Sublist"
begin

section \<open>The remote service client of \<^verbatim>\<open>src/frontend/src/services/api.ts\<close>\<close>

text \<open>
  The file is a client-side HTTP access layer: every operation builds one request,
  hands it to a transport (the shared axios instance \<^verbatim>\<open>api\<close>, or the browser's
  \<^verbatim>\<open>fetch\<close>), and turns the outcome into a returned value or a rejection.
  The network is not part of the program, so each operation takes its transport as a
  parameter: a function from the request to what the transport answers. A rejected
  promise is \<open>Inl\<close> of an error, a resolved one is \<open>Inr\<close> of the value.
\<close>

subsection \<open>JavaScript values\<close>

text \<open>
  The values that travel through the client: what \<^verbatim>\<open>response.json()\<close> parses, what
  \<^verbatim>\<open>JSON.stringify\<close> serialises. An object is the list of its properties in insertion
  order. Numbers are restricted to the integers; the client computes with none and
  passes every value it receives on untouched.
\<close>

datatype jsval =
    JUndefined
  | JNull
  | JBool bool
  | JNum int
  | JStr string
  | JArr "jsval list"
  | JObj "(string \<times> jsval) list"

text \<open>Errors a promise of this client can reject with.\<close>

datatype error =
    Error string        \<comment> \<open>\<^verbatim>\<open>new Error(message)\<close>, thrown by the client itself\<close>
  | TypeError           \<comment> \<open>reading a property of \<^verbatim>\<open>null\<close> or \<^verbatim>\<open>undefined\<close>\<close>
  | TransportError string  \<comment> \<open>whatever the transport rejects with, passed on untouched\<close>

text \<open>JavaScript truthiness, and the operator \<^verbatim>\<open>a || b\<close>.\<close>

fun truthy :: "jsval \<Rightarrow> bool" where
  "truthy JUndefined = False"
| "truthy JNull = False"
| "truthy (JBool b) = b"
| "truthy (JNum n) = (n \<noteq> 0)"
| "truthy (JStr s) = (s \<noteq> [])"
| "truthy (JArr xs) = True"
| "truthy (JObj kvs) = True"

definition js_or :: "jsval \<Rightarrow> jsval \<Rightarrow> jsval" where
  "js_or a b = (if truthy a then a else b)"

text \<open>
  Property access \<^verbatim>\<open>v.k\<close>, for the property names the client reads (\<^verbatim>\<open>patient\<close>,
  \<^verbatim>\<open>patients\<close>), which no built-in prototype defines: a missing property is
  \<^verbatim>\<open>undefined\<close>, and reading a property of \<^verbatim>\<open>null\<close> or \<^verbatim>\<open>undefined\<close> throws.
\<close>

fun get_prop :: "jsval \<Rightarrow> string \<Rightarrow> error + jsval" where
  "get_prop JUndefined k = Inl TypeError"
| "get_prop JNull k = Inl TypeError"
| "get_prop (JObj kvs) k = (case map_of kvs k of None \<Rightarrow> Inr JUndefined | Some v \<Rightarrow> Inr v)"
| "get_prop v k = Inr JUndefined"

text \<open>An optional string field of a typed record, as the JavaScript value it is.\<close>

definition opt_str :: "string option \<Rightarrow> jsval" where
  "opt_str s = (case s of None \<Rightarrow> JUndefined | Some t \<Rightarrow> JStr t)"

subsection \<open>Strings: joining, decimal and hexadecimal digits\<close>

text \<open>\<^verbatim>\<open>Array.prototype.join\<close> on an array of strings.\<close>

fun join :: "string \<Rightarrow> string list \<Rightarrow> string" where
  "join sep [] = []"
| "join sep [x] = x"
| "join sep (x # y # ys) = x @ sep @ join sep (y # ys)"

definition hex_digit :: "bool \<Rightarrow> nat \<Rightarrow> char" where
  "hex_digit upper n =
     (if n < 10 then char_of (48 + n)
      else if upper then char_of (55 + n) else char_of (87 + n))"

fun digits10 :: "nat \<Rightarrow> string" where
  "digits10 n = (if n < 10 then [char_of (48 + n)] else digits10 (n div 10) @ [char_of (48 + n mod 10)])"

declare digits10.simps [simp del]

text \<open>
  \<^verbatim>\<open>Number.prototype.toString\<close> on an integer: plain decimal. This is what JavaScript
  prints for the integers of magnitude below \<open>2\<^sup>5\<^sup>3\<close>, each of which is a number of its
  own. A larger integer is printed from the nearest double in its shortest form, and
  from \<open>10\<^sup>2\<^sup>1\<close> on with an exponent; those and the fractions are outside this model,
  and nothing below relies on the digits of a number other than \<open>5\<close>.
\<close>

definition number_toString :: "int \<Rightarrow> string" where
  "number_toString n = (if n < 0 then CHR ''-'' # digits10 (nat (- n)) else digits10 (nat n))"

subsection \<open>\<^verbatim>\<open>JSON.stringify\<close>\<close>

text \<open>
  A string is quoted with the escapes of the JSON grammar: the quote, the backslash, the
  five short escapes, and \<^verbatim>\<open>\u00XX\<close> (lower-case hexadecimal) for the other control
  characters. A string of the model is the UTF-8 text; bytes from \<open>0x20\<close> on are copied.
\<close>

definition json_escape :: "char \<Rightarrow> string" where
  "json_escape c =
     (let n = (of_char c :: nat) in
      if n = 34 then [CHR 0x5C, CHR 0x22]
      else if n = 92 then [CHR 0x5C, CHR 0x5C]
      else if n = 8 then [CHR 0x5C, CHR ''b'']
      else if n = 12 then [CHR 0x5C, CHR ''f'']
      else if n = 10 then [CHR 0x5C, CHR ''n'']
      else if n = 13 then [CHR 0x5C, CHR ''r'']
      else if n = 9 then [CHR 0x5C, CHR ''t'']
      else if n < 32 then
        [CHR 0x5C, CHR ''u'', CHR ''0'', CHR ''0'', hex_digit False (n div 16), hex_digit False (n mod 16)]
      else [c])"

definition json_quote :: "string \<Rightarrow> string" where
  "json_quote s = CHR 0x22 # concat (map json_escape s) @ [CHR 0x22]"

text \<open>
  Serialisation of a value: the text, or \<open>None\<close> where \<^verbatim>\<open>JSON.stringify\<close> returns
  \<^verbatim>\<open>undefined\<close>. A property whose value serialises to \<^verbatim>\<open>undefined\<close> is left out of
  its object; such an element of an array is printed as \<^verbatim>\<open>null\<close>.
\<close>

fun JSON_stringify :: "jsval \<Rightarrow> string option" where
  "JSON_stringify JUndefined = None"
| "JSON_stringify JNull = Some ''null''"
| "JSON_stringify (JBool b) = Some (if b then ''true'' else ''false'')"
| "JSON_stringify (JNum n) = Some (number_toString n)"
| "JSON_stringify (JStr s) = Some (json_quote s)"
| "JSON_stringify (JArr xs) =
     Some (''['' @ join '',''
        (map (\<lambda>x. case JSON_stringify x of None \<Rightarrow> ''null'' | Some t \<Rightarrow> t) xs) @ '']'')"
| "JSON_stringify (JObj kvs) =
     Some (''{'' @ join '',''
        (concat (map (\<lambda>(k, v). case JSON_stringify v of
                                  None \<Rightarrow> []
                                | Some t \<Rightarrow> [json_quote k @ '':'' @ t]) kvs)) @ ''}'')"

subsection \<open>\<^verbatim>\<open>FormData\<close> and \<^verbatim>\<open>URLSearchParams\<close>\<close>

text \<open>A browser \<^verbatim>\<open>File\<close>: its name and its content.\<close>

datatype jsfile = File (file_name: string) (file_content: string)

text \<open>
  A \<^verbatim>\<open>FormData\<close> is the list of its entries in the order they were appended; an entry
  is a string or a file. A name may repeat.
\<close>

datatype form_value = FormText string | FormFile jsfile

type_synonym FormData = "(string \<times> form_value) list"

definition FormData_append :: "FormData \<Rightarrow> string \<Rightarrow> form_value \<Rightarrow> FormData" where
  "FormData_append formData k v = formData @ [(k, v)]"

text \<open>
  A \<^verbatim>\<open>URLSearchParams\<close> is the list of its name-value pairs. Its \<^verbatim>\<open>toString\<close> (what
  a template literal interpolates) is the \<^verbatim>\<open>application/x-www-form-urlencoded\<close>
  serialiser of the URL standard: a space becomes \<^verbatim>\<open>+\<close>, the ASCII letters and digits
  and \<^verbatim>\<open>* - . _\<close> are copied, every other byte is percent-encoded with upper-case
  hexadecimal digits; pairs are written \<^verbatim>\<open>name=value\<close> and joined by \<^verbatim>\<open>&\<close>.
\<close>

type_synonym URLSearchParams = "(string \<times> string) list"

definition URLSearchParams_append :: "URLSearchParams \<Rightarrow> string \<Rightarrow> string \<Rightarrow> URLSearchParams" where
  "URLSearchParams_append params k v = params @ [(k, v)]"

definition urlencode_byte :: "char \<Rightarrow> string" where
  "urlencode_byte c =
     (let n = (of_char c :: nat) in
      if n = 32 then ''+''
      else if n = 42 \<or> n = 45 \<or> n = 46 \<or> n = 95 \<or> (48 \<le> n \<and> n \<le> 57)
              \<or> (65 \<le> n \<and> n \<le> 90) \<or> (97 \<le> n \<and> n \<le> 122) then [c]
      else [CHR ''%'', hex_digit True (n div 16), hex_digit True (n mod 16)])"

definition urlencode :: "string \<Rightarrow> string" where
  "urlencode s = concat (map urlencode_byte s)"

definition URLSearchParams_toString :: "URLSearchParams \<Rightarrow> string" where
  "URLSearchParams_toString params =
     join ''&'' (map (\<lambda>(k, v). urlencode k @ ''='' @ urlencode v) params)"

subsection \<open>Requests, responses and the two transports\<close>

datatype http_method = GET | POST | PUT | DELETE

text \<open>
  What a request's URL is resolved against: the base URL of the axios instance that sends
  it, or, for a relative URL handed to \<^verbatim>\<open>fetch\<close>, the origin of the page itself.
\<close>

datatype base = BaseURL string | PageOrigin

text \<open>
  A request body: none, a text (the client's own \<^verbatim>\<open>JSON.stringify\<close> output), a
  \<^verbatim>\<open>FormData\<close>, or a value handed to axios as \<^verbatim>\<open>data\<close> for axios to serialise.
  \<open>string_body\<close> is the \<^verbatim>\<open>body\<close> member of a \<^verbatim>\<open>fetch\<close> init holding the result of
  \<^verbatim>\<open>JSON.stringify\<close>: \<^verbatim>\<open>undefined\<close> there means no body.
\<close>

datatype body = NoBody | TextBody string | FormBody FormData | DataBody jsval

definition string_body :: "string option \<Rightarrow> body" where
  "string_body t = (case t of None \<Rightarrow> NoBody | Some u \<Rightarrow> TextBody u)"

text \<open>
  The request as the client hands it to its transport. \<open>req_headers\<close> are the headers
  the client's code supplies (defaults of the instance included), not what the transport
  finally writes on the wire.
\<close>

record request =
  req_base :: base
  req_url :: string
  req_method :: http_method
  req_headers :: "(string \<times> string) list"
  req_body :: body

text \<open>
  A \<^verbatim>\<open>fetch\<close> response: the status code and what \<^verbatim>\<open>response.json()\<close> settles to (it
  rejects when the body is not JSON). \<^verbatim>\<open>response.ok\<close> is true for the statuses 200 to 299.
\<close>

record response =
  status :: nat
  json :: "error + jsval"

definition ok :: "response \<Rightarrow> bool" where
  "ok response = (200 \<le> status response \<and> status response \<le> 299)"

text \<open>An axios response, of which the client reads \<^verbatim>\<open>data\<close> only.\<close>

record axios_response =
  data :: jsval

text \<open>
  \<^verbatim>\<open>fetch(url, init)\<close> with a relative URL; the method defaults to GET, the headers to
  none, the body to none.
\<close>

definition fetch_request :: "string \<Rightarrow> http_method \<Rightarrow> (string \<times> string) list \<Rightarrow> body \<Rightarrow> request" where
  "fetch_request url m hs b =
     \<lparr>req_base = PageOrigin, req_url = url, req_method = m, req_headers = hs, req_body = b\<rparr>"

text \<open>Awaiting a promise: a rejection leaves the function at once, with that error.\<close>

definition await :: "error + 'a \<Rightarrow> ('a \<Rightarrow> error + 'b) \<Rightarrow> error + 'b" where
  "await p k = (case p of Inl e \<Rightarrow> Inl e | Inr x \<Rightarrow> k x)"

subsection \<open>The shared axios instance (lines 4 to 11)\<close>

text \<open>
  \<^verbatim>\<open>process.env.REACT_APP_API_URL || 'http://localhost:8000'\<close>: the setting is absent
  (\<open>None\<close>) or a string, and the empty string is falsy.
\<close>

definition API_BASE_URL :: "string option \<Rightarrow> string" where
  "API_BASE_URL env =
     (case env of None \<Rightarrow> ''http://localhost:8000''
      | Some s \<Rightarrow> if s = [] then ''http://localhost:8000'' else s)"

record axios_instance =
  baseURL :: string
  headers :: "(string \<times> string) list"

definition api :: "string option \<Rightarrow> axios_instance" where
  "api env = \<lparr>baseURL = API_BASE_URL env, headers = [(''Content-Type'', ''application/json'')]\<rparr>"

text \<open>
  A request through an axios instance: the URL is resolved against the instance's base
  URL, and the headers of the call override the instance's defaults of the same name.
\<close>

definition merge_headers :: "(string \<times> string) list \<Rightarrow> (string \<times> string) list \<Rightarrow> (string \<times> string) list" where
  "merge_headers defaults hs = hs @ filter (\<lambda>(k, v). map_of hs k = None) defaults"

definition axios_request ::
  "axios_instance \<Rightarrow> http_method \<Rightarrow> string \<Rightarrow> body \<Rightarrow> (string \<times> string) list \<Rightarrow> request" where
  "axios_request inst m url b hs =
     \<lparr>req_base = BaseURL (baseURL inst), req_url = url, req_method = m,
      req_headers = merge_headers (headers inst) hs, req_body = b\<rparr>"

subsection \<open>Documents API (lines 14 to 42)\<close>

text \<open>
  Each operation comes as the request it builds and the function itself, which sends
  that request through its transport. The operations of \<^verbatim>\<open>api\<close> take the environment
  setting the instance was created from.
\<close>

definition uploadDocument_request :: "string option \<Rightarrow> jsfile \<Rightarrow> request" where
  "uploadDocument_request env f =
     (let formData = FormData_append [] ''file'' (FormFile f)
      in axios_request (api env) POST ''/api/documents/upload'' (FormBody formData)
           [(''Content-Type'', ''multipart/form-data'')])"

definition uploadDocument ::
  "(request \<Rightarrow> error + axios_response) \<Rightarrow> string option \<Rightarrow> jsfile \<Rightarrow> error + jsval" where
  "uploadDocument http env f =
     await (http (uploadDocument_request env f)) (\<lambda>response. Inr (data response))"

definition uploadDocuments_request :: "string option \<Rightarrow> jsfile list \<Rightarrow> request" where
  "uploadDocuments_request env files =
     (let formData = foldl (\<lambda>fd f. FormData_append fd ''files'' (FormFile f)) [] files
      in axios_request (api env) POST ''/api/documents/upload-multiple'' (FormBody formData)
           [(''Content-Type'', ''multipart/form-data'')])"

definition uploadDocuments ::
  "(request \<Rightarrow> error + axios_response) \<Rightarrow> string option \<Rightarrow> jsfile list \<Rightarrow> error + jsval" where
  "uploadDocuments http env files =
     await (http (uploadDocuments_request env files)) (\<lambda>response. Inr (data response))"

definition getSupportedTypes_request :: "string option \<Rightarrow> request" where
  "getSupportedTypes_request env =
     axios_request (api env) GET ''/api/documents/supported-types'' NoBody []"

definition getSupportedTypes ::
  "(request \<Rightarrow> error + axios_response) \<Rightarrow> string option \<Rightarrow> error + jsval" where
  "getSupportedTypes http env =
     await (http (getSupportedTypes_request env)) (\<lambda>response. Inr (data response))"

subsection \<open>Patients API (lines 45 to 125)\<close>

text \<open>
  Modelled from the spec: the types \<^verbatim>\<open>PatientCreate\<close> and \<^verbatim>\<open>PatientUpdate\<close> are
  declared in \<^verbatim>\<open>../types\<close>, which is not among the sources. The spec's data model
  gives a patient a name, a date of birth, an optional diagnosis and an optional
  prescription; \<^verbatim>\<open>PatientCreate\<close> is that projection, and \<^verbatim>\<open>PatientUpdate\<close> allows
  partial replacement, so each of its fields is optional. An optional field that is
  absent is \<open>None\<close> (\<^verbatim>\<open>undefined\<close> when read).
\<close>

record PatientCreate =
  name :: string
  date_of_birth :: string
  diagnosis :: "string option"
  prescription :: "string option"

record PatientUpdate =
  upd_name :: "string option"
  upd_date_of_birth :: "string option"
  upd_diagnosis :: "string option"
  upd_prescription :: "string option"

text \<open>
  The object literal of lines 53 to 60, and the request of lines 48 to 61. The source's
  parameter \<^verbatim>\<open>id\<close> is \<open>patient_id\<close> below (\<open>id\<close> is the identity function of HOL).
\<close>

definition createPatient_payload :: "PatientCreate \<Rightarrow> jsval" where
  "createPatient_payload patientData =
     JObj [(''name'', JStr (name patientData)),
           (''date_of_birth'', JStr (date_of_birth patientData)),
           (''diagnosis'', js_or (opt_str (diagnosis patientData)) JNull),
           (''prescription'', js_or (opt_str (prescription patientData)) JNull),
           (''confidence_score'', JNull),
           (''raw_text'', JNull)]"

definition createPatient_request :: "PatientCreate \<Rightarrow> request" where
  "createPatient_request patientData =
     fetch_request ''/api/patients/'' POST [(''Content-Type'', ''application/json'')]
       (string_body (JSON_stringify (createPatient_payload patientData)))"

definition createPatient ::
  "(request \<Rightarrow> error + response) \<Rightarrow> PatientCreate \<Rightarrow> error + jsval" where
  "createPatient fetch patientData =
     await (fetch (createPatient_request patientData)) (\<lambda>response.
       if \<not> ok response then Inl (Error ''Failed to create patient'')
       else await (json response) (\<lambda>result. get_prop result ''patient''))"

definition getPatients_request :: request where
  "getPatients_request = fetch_request ''/api/patients/'' GET [] NoBody"

definition getPatients :: "(request \<Rightarrow> error + response) \<Rightarrow> error + jsval" where
  "getPatients fetch =
     await (fetch getPatients_request) (\<lambda>response.
       if \<not> ok response then Inl (Error ''Failed to fetch patients'')
       else await (json response) (\<lambda>result.
         await (get_prop result ''patients'') (\<lambda>patients. Inr (js_or patients (JArr [])))))"

definition getPatient_request :: "string \<Rightarrow> request" where
  "getPatient_request patient_id = fetch_request (''/api/patients/'' @ patient_id) GET [] NoBody"

definition getPatient :: "(request \<Rightarrow> error + response) \<Rightarrow> string \<Rightarrow> error + jsval" where
  "getPatient fetch patient_id =
     await (fetch (getPatient_request patient_id)) (\<lambda>response.
       if \<not> ok response then Inl (Error ''Failed to fetch patient'')
       else await (json response) (\<lambda>result. get_prop result ''patient''))"

definition updatePatient_payload :: "PatientUpdate \<Rightarrow> jsval" where
  "updatePatient_payload patientData =
     JObj [(''name'', opt_str (upd_name patientData)),
           (''date_of_birth'', opt_str (upd_date_of_birth patientData)),
           (''diagnosis'', opt_str (upd_diagnosis patientData)),
           (''prescription'', opt_str (upd_prescription patientData))]"

definition updatePatient_request :: "string \<Rightarrow> PatientUpdate \<Rightarrow> request" where
  "updatePatient_request patient_id patientData =
     fetch_request (''/api/patients/'' @ patient_id) PUT [(''Content-Type'', ''application/json'')]
       (string_body (JSON_stringify (updatePatient_payload patientData)))"

definition updatePatient ::
  "(request \<Rightarrow> error + response) \<Rightarrow> string \<Rightarrow> PatientUpdate \<Rightarrow> error + jsval" where
  "updatePatient fetch patient_id patientData =
     await (fetch (updatePatient_request patient_id patientData)) (\<lambda>response.
       if \<not> ok response then Inl (Error ''Failed to update patient'')
       else await (json response) (\<lambda>result. get_prop result ''patient''))"

definition deletePatient_request :: "string \<Rightarrow> request" where
  "deletePatient_request patient_id = fetch_request (''/api/patients/'' @ patient_id) DELETE [] NoBody"

definition deletePatient :: "(request \<Rightarrow> error + response) \<Rightarrow> string \<Rightarrow> error + unit" where
  "deletePatient fetch patient_id =
     await (fetch (deletePatient_request patient_id)) (\<lambda>response.
       if \<not> ok response then Inl (Error ''Failed to delete patient'')
       else Inr ())"

subsection \<open>Chat API (lines 128 to 195)\<close>

text \<open>
  \<^verbatim>\<open>ChatMessage\<close> is declared in \<^verbatim>\<open>../types\<close> too; the client hands the message to
  axios as it is, so it is any value here.
\<close>

definition sendMessage_request :: "string option \<Rightarrow> jsval \<Rightarrow> request" where
  "sendMessage_request env message =
     axios_request (api env) POST ''/api/chat/'' (DataBody message) []"

definition sendMessage ::
  "(request \<Rightarrow> error + axios_response) \<Rightarrow> string option \<Rightarrow> jsval \<Rightarrow> error + jsval" where
  "sendMessage http env message =
     await (http (sendMessage_request env message)) (\<lambda>response. Inr (data response))"

definition refreshKnowledgeBase_request :: "string option \<Rightarrow> request" where
  "refreshKnowledgeBase_request env =
     axios_request (api env) POST ''/api/chat/refresh-knowledge-base'' NoBody []"

definition refreshKnowledgeBase ::
  "(request \<Rightarrow> error + axios_response) \<Rightarrow> string option \<Rightarrow> error + unit" where
  "refreshKnowledgeBase http env =
     await (http (refreshKnowledgeBase_request env)) (\<lambda>response. Inr ())"

text \<open>
  Lines 144 to 154: four fixed appends, then one \<^verbatim>\<open>files\<close> entry per file when the
  optional list is given and not empty.
\<close>

definition sendMessageWithPatientContext_formData ::
  "string \<Rightarrow> string \<Rightarrow> jsfile list option \<Rightarrow> FormData" where
  "sendMessageWithPatientContext_formData sessionId query files =
     (let formData = FormData_append [] ''session_id'' (FormText sessionId);
          formData = FormData_append formData ''query'' (FormText query);
          formData = FormData_append formData ''include_all_patients'' (FormText ''true'');
          formData = FormData_append formData ''max_patients'' (FormText ''10'')
      in case files of
           None \<Rightarrow> formData
         | Some fs \<Rightarrow>
             if length fs > 0
             then foldl (\<lambda>fd f. FormData_append fd ''files'' (FormFile f)) formData fs
             else formData)"

definition sendMessageWithPatientContext_request ::
  "string \<Rightarrow> string \<Rightarrow> jsfile list option \<Rightarrow> request" where
  "sendMessageWithPatientContext_request sessionId query files =
     fetch_request ''/api/patients/context/chat-query'' POST []
       (FormBody (sendMessageWithPatientContext_formData sessionId query files))"

definition sendMessageWithPatientContext ::
  "(request \<Rightarrow> error + response) \<Rightarrow> string \<Rightarrow> string \<Rightarrow> jsfile list option \<Rightarrow> error + jsval" where
  "sendMessageWithPatientContext fetch sessionId query files =
     await (fetch (sendMessageWithPatientContext_request sessionId query files)) (\<lambda>response.
       if \<not> ok response then Inl (Error ''Failed to get chat response'')
       else json response)"

text \<open>
  Lines 168 to 176. Both parameters are optional: the list may be omitted, and the limit
  defaults to 10 when it is.
\<close>

definition getPatientContext_params :: "string list option \<Rightarrow> int option \<Rightarrow> URLSearchParams" where
  "getPatientContext_params patientIds limit_arg =
     (let limit = (case limit_arg of None \<Rightarrow> 10 | Some n \<Rightarrow> n);
          params = [];
          params = (case patientIds of
                      None \<Rightarrow> params
                    | Some ids \<Rightarrow>
                        if length ids > 0
                        then URLSearchParams_append params ''patient_ids'' (join '','' ids)
                        else params);
          params = URLSearchParams_append params ''limit'' (number_toString limit);
          params = URLSearchParams_append params ''include_recent'' ''true''
      in params)"

definition getPatientContext_request :: "string list option \<Rightarrow> int option \<Rightarrow> request" where
  "getPatientContext_request patientIds limit_arg =
     fetch_request
       (''/api/patients/context/chat?''
          @ URLSearchParams_toString (getPatientContext_params patientIds limit_arg))
       GET [] NoBody"

definition getPatientContext ::
  "(request \<Rightarrow> error + response) \<Rightarrow> string list option \<Rightarrow> int option \<Rightarrow> error + jsval" where
  "getPatientContext fetch patientIds limit_arg =
     await (fetch (getPatientContext_request patientIds limit_arg)) (\<lambda>response.
       if \<not> ok response then Inl (Error ''Failed to get patient context'')
       else json response)"

definition startChatSession_request :: request where
  "startChatSession_request = fetch_request ''/api/chat/start-session'' POST [] NoBody"

definition startChatSession :: "(request \<Rightarrow> error + response) \<Rightarrow> error + jsval" where
  "startChatSession fetch =
     await (fetch startChatSession_request) (\<lambda>response.
       if \<not> ok response then Inl (Error ''Failed to start chat session'')
       else json response)"

subsection \<open>Notions used to state the properties\<close>

text \<open>
  An operation hands the request \<open>req\<close> to its transport: when the transport rejects at
  \<open>req\<close> the operation rejects with the same error, and the outcome of the operation
  depends on the transport through its answer at \<open>req\<close> only.
\<close>

definition hands_to :: "(('q \<Rightarrow> error + 'r) \<Rightarrow> error + 'a) \<Rightarrow> 'q \<Rightarrow> bool" where
  "hands_to operation req =
     ((\<forall>transport e. transport req = Inl e \<longrightarrow> operation transport = Inl e)
      \<and> (\<forall>t t'. t req = t' req \<longrightarrow> operation t = operation t'))"

text \<open>The transport that answers every request with the response \<open>a\<close>.\<close>

definition answering :: "response \<Rightarrow> request \<Rightarrow> error + response" where
  "answering a r = Inr a"

text \<open>A request is resolved against the base address configured by the environment.\<close>

definition uses_base_url :: "string option \<Rightarrow> request \<Rightarrow> bool" where
  "uses_base_url env r = (req_base r = BaseURL (API_BASE_URL env))"

text \<open>The content type a request's headers name, and the two kinds of body.\<close>

definition content_type :: "request \<Rightarrow> string option" where
  "content_type r = map_of (req_headers r) ''Content-Type''"

definition is_multipart :: "request \<Rightarrow> bool" where
  "is_multipart r = (case req_body r of FormBody fd \<Rightarrow> True | _ \<Rightarrow> False)"

definition is_json_body :: "request \<Rightarrow> bool" where
  "is_json_body r = (case req_body r of TextBody t \<Rightarrow> True | DataBody d \<Rightarrow> True | _ \<Rightarrow> False)"

text \<open>
  The text that \<^verbatim>\<open>x || null\<close> serialises to, for an optional string \<^verbatim>\<open>x\<close>:
  \<^verbatim>\<open>null\<close> when the string is absent or empty, the quoted string otherwise.
\<close>

definition nullable_text :: "string option \<Rightarrow> string" where
  "nullable_text d =
     (case d of None \<Rightarrow> ''null'' | Some t \<Rightarrow> if t = [] then ''null'' else json_quote t)"

section \<open>Properties\<close>

subsection \<open>Awaiting\<close>

lemma await_Inr: "p = Inr x \<Longrightarrow> await p k = k x"
  by (simp add: await_def)

lemma await_Inl: "p = Inl e \<Longrightarrow> await p k = Inl e"
  by (simp add: await_def)

lemma await_Inr_iff: "await p k = Inr v \<longleftrightarrow> (\<exists>x. p = Inr x \<and> k x = Inr v)"
  by (cases p) (simp_all add: await_def)

subsection \<open>Every operation hands its request to its transport\<close>

lemma hands_to_await: "hands_to (\<lambda>t. await (t req) k) req"
  by (simp add: hands_to_def await_def)

lemma hands_to_rejection: "hands_to operation req \<Longrightarrow> t req = Inl e \<Longrightarrow> operation t = Inl e"
  by (simp add: hands_to_def)

lemma hands_to_operations:
  "hands_to (\<lambda>t. uploadDocument t env f) (uploadDocument_request env f)"
  "hands_to (\<lambda>t. uploadDocuments t env files) (uploadDocuments_request env files)"
  "hands_to (\<lambda>t. getSupportedTypes t env) (getSupportedTypes_request env)"
  "hands_to (\<lambda>t. createPatient t patientData) (createPatient_request patientData)"
  "hands_to getPatients getPatients_request"
  "hands_to (\<lambda>t. getPatient t patient_id) (getPatient_request patient_id)"
  "hands_to (\<lambda>t. updatePatient t patient_id patientUpdate) (updatePatient_request patient_id patientUpdate)"
  "hands_to (\<lambda>t. deletePatient t patient_id) (deletePatient_request patient_id)"
  "hands_to (\<lambda>t. sendMessage t env message) (sendMessage_request env message)"
  "hands_to (\<lambda>t. refreshKnowledgeBase t env) (refreshKnowledgeBase_request env)"
  "hands_to (\<lambda>t. sendMessageWithPatientContext t sessionId query attached)
     (sendMessageWithPatientContext_request sessionId query attached)"
  "hands_to (\<lambda>t. getPatientContext t patientIds limit_arg) (getPatientContext_request patientIds limit_arg)"
  "hands_to startChatSession startChatSession_request"
  unfolding uploadDocument_def uploadDocuments_def getSupportedTypes_def createPatient_def
    getPatients_def getPatient_def updatePatient_def deletePatient_def sendMessage_def
    refreshKnowledgeBase_def sendMessageWithPatientContext_def getPatientContext_def
    startChatSession_def
  by (rule hands_to_await)+

lemma createPatient_on_answer:
  "fetch (createPatient_request pd) = Inr response \<Longrightarrow>
     createPatient fetch pd =
       (if ok response then await (json response) (\<lambda>result. get_prop result ''patient'')
        else Inl (Error ''Failed to create patient''))"
  by (simp add: createPatient_def await_Inr)

lemma createPatient_on_rejection:
  "fetch (createPatient_request pd) = Inl e \<Longrightarrow> createPatient fetch pd = Inl e"
  by (simp add: createPatient_def await_Inl)

subsection \<open>The body of \<^verbatim>\<open>createPatient\<close>\<close>

lemma json_quote_keys:
  "json_quote ''name'' = ''\"name\"''"
  "json_quote ''date_of_birth'' = ''\"date_of_birth\"''"
  "json_quote ''diagnosis'' = ''\"diagnosis\"''"
  "json_quote ''prescription'' = ''\"prescription\"''"
  "json_quote ''confidence_score'' = ''\"confidence_score\"''"
  "json_quote ''raw_text'' = ''\"raw_text\"''"
  by code_simp+

lemma json_quote_samples:
  "json_quote ''Ann'' = ''\"Ann\"''"
  "json_quote ''1990-01-01'' = ''\"1990-01-01\"''"
  "json_quote ''flu'' = ''\"flu\"''"
  by code_simp+

lemma js_or_null_falsy: "d = None \<or> d = Some [] \<Longrightarrow> js_or (opt_str d) JNull = JNull"
  by (auto simp add: js_or_def opt_str_def)

lemma stringify_js_or_null:
  "JSON_stringify (js_or (opt_str d) JNull) = Some (nullable_text d)"
  by (cases d) (simp_all add: js_or_def opt_str_def nullable_text_def)

lemma nullable_text_falsy: "d = None \<or> d = Some [] \<Longrightarrow> nullable_text d = ''null''"
  by (auto simp add: nullable_text_def)

lemma createPatient_body_text:
  "req_body (createPatient_request pd) = TextBody
     (''{\"name\":'' @ json_quote (name pd)
      @ '',\"date_of_birth\":'' @ json_quote (date_of_birth pd)
      @ '',\"diagnosis\":'' @ nullable_text (diagnosis pd)
      @ '',\"prescription\":'' @ nullable_text (prescription pd)
      @ '',\"confidence_score\":null,\"raw_text\":null}'')"
  by (simp add: createPatient_request_def fetch_request_def string_body_def
      createPatient_payload_def json_quote_keys stringify_js_or_null)

text \<open>
  C1. \<^verbatim>\<open>createPatient\<close> resolves with a value exactly when the transport answers with
  an ok response whose parsed body has that value as its \<^verbatim>\<open>patient\<close> property. In the
  object it serialises, \<^verbatim>\<open>confidence_score\<close> and \<^verbatim>\<open>raw_text\<close> are \<^verbatim>\<open>null\<close> for
  every input, and the body text it sends always ends in
  \<^verbatim>\<open>,"confidence_score":null,"raw_text":null}\<close>.
\<close>

theorem createPatient_returns_patient_and_sends_nulls:
  "(createPatient fetch pd = Inr v \<longleftrightarrow>
      (\<exists>response result. fetch (createPatient_request pd) = Inr response \<and> ok response
          \<and> json response = Inr result \<and> get_prop result ''patient'' = Inr v))
   \<and> get_prop (createPatient_payload pd) ''confidence_score'' = Inr JNull
   \<and> get_prop (createPatient_payload pd) ''raw_text'' = Inr JNull
   \<and> req_body (createPatient_request pd) = TextBody
       (''{\"name\":'' @ json_quote (name pd)
        @ '',\"date_of_birth\":'' @ json_quote (date_of_birth pd)
        @ '',\"diagnosis\":'' @ nullable_text (diagnosis pd)
        @ '',\"prescription\":'' @ nullable_text (prescription pd)
        @ '',\"confidence_score\":null,\"raw_text\":null}'')"
proof -
  have ret: "createPatient fetch pd = Inr v \<longleftrightarrow>
      (\<exists>response result. fetch (createPatient_request pd) = Inr response \<and> ok response
          \<and> json response = Inr result \<and> get_prop result ''patient'' = Inr v)"
    by (auto simp add: createPatient_def await_Inr_iff)
  have nulls: "get_prop (createPatient_payload pd) ''confidence_score'' = Inr JNull"
    "get_prop (createPatient_payload pd) ''raw_text'' = Inr JNull"
    by (simp_all add: createPatient_payload_def)
  from ret nulls createPatient_body_text show ?thesis by blast
qed

theorem createPatient_returns_patient_and_sends_nulls_witness:
  "createPatient
     (\<lambda>r. Inr \<lparr>status = 201,
                json = Inr (JObj [(''patient'', JObj [(''id'', JStr ''7''), (''name'', JStr ''Ann'')])])\<rparr>)
     \<lparr>name = ''Ann'', date_of_birth = ''1990-01-01'', diagnosis = Some ''flu'', prescription = None\<rparr>
   = Inr (JObj [(''id'', JStr ''7''), (''name'', JStr ''Ann'')])
   \<and> req_body (createPatient_request
        \<lparr>name = ''Ann'', date_of_birth = ''1990-01-01'', diagnosis = Some ''flu'', prescription = None\<rparr>)
     = TextBody ''{\"name\":\"Ann\",\"date_of_birth\":\"1990-01-01\",\"diagnosis\":\"flu\",\"prescription\":null,\"confidence_score\":null,\"raw_text\":null}''"
proof -
  let ?f = "\<lambda>r::request. (Inr \<lparr>status = 201,
      json = Inr (JObj [(''patient'', JObj [(''id'', JStr ''7''), (''name'', JStr ''Ann'')])])\<rparr>
      :: error + response)"
  let ?pd = "\<lparr>name = ''Ann'', date_of_birth = ''1990-01-01'', diagnosis = Some ''flu'', prescription = None\<rparr>"
  from createPatient_returns_patient_and_sends_nulls
    [of ?f ?pd "JObj [(''id'', JStr ''7''), (''name'', JStr ''Ann'')]"]
  show ?thesis by (simp add: ok_def nullable_text_def json_quote_samples)
qed

text \<open>
  C9. Whenever the input's diagnosis is absent or the empty string, the payload's
  \<^verbatim>\<open>diagnosis\<close> property is \<^verbatim>\<open>null\<close>, not the empty string, and the body text of
  the request reads \<^verbatim>\<open>"diagnosis":null\<close>; the same holds for the prescription. That
  request is the one \<^verbatim>\<open>createPatient\<close> hands to \<^verbatim>\<open>fetch\<close>: its outcome is decided
  by the answer to it, and a rejection of it is passed on.
\<close>

theorem createPatient_falsy_fields_are_null:
  "(diagnosis pd = None \<or> diagnosis pd = Some [] \<longrightarrow>
      get_prop (createPatient_payload pd) ''diagnosis'' = Inr JNull
      \<and> req_body (createPatient_request pd) = TextBody
          (''{\"name\":'' @ json_quote (name pd)
           @ '',\"date_of_birth\":'' @ json_quote (date_of_birth pd)
           @ '',\"diagnosis\":null,\"prescription\":'' @ nullable_text (prescription pd)
           @ '',\"confidence_score\":null,\"raw_text\":null}''))
   \<and> (prescription pd = None \<or> prescription pd = Some [] \<longrightarrow>
      get_prop (createPatient_payload pd) ''prescription'' = Inr JNull
      \<and> req_body (createPatient_request pd) = TextBody
          (''{\"name\":'' @ json_quote (name pd)
           @ '',\"date_of_birth\":'' @ json_quote (date_of_birth pd)
           @ '',\"diagnosis\":'' @ nullable_text (diagnosis pd)
           @ '',\"prescription\":null,\"confidence_score\":null,\"raw_text\":null}''))
   \<and> (\<forall>fetch response. fetch (createPatient_request pd) = Inr response \<longrightarrow>
         createPatient fetch pd =
           (if ok response then await (json response) (\<lambda>result. get_prop result ''patient'')
            else Inl (Error ''Failed to create patient'')))
   \<and> (\<forall>fetch e. fetch (createPatient_request pd) = Inl e \<longrightarrow> createPatient fetch pd = Inl e)"
proof -
  have field:
    "get_prop (createPatient_payload pd) ''diagnosis'' = Inr (js_or (opt_str (diagnosis pd)) JNull)"
    "get_prop (createPatient_payload pd) ''prescription'' = Inr (js_or (opt_str (prescription pd)) JNull)"
    by (simp_all add: createPatient_payload_def)
  have sent: "(diagnosis pd = None \<or> diagnosis pd = Some [] \<longrightarrow>
      get_prop (createPatient_payload pd) ''diagnosis'' = Inr JNull
      \<and> req_body (createPatient_request pd) = TextBody
          (''{\"name\":'' @ json_quote (name pd)
           @ '',\"date_of_birth\":'' @ json_quote (date_of_birth pd)
           @ '',\"diagnosis\":null,\"prescription\":'' @ nullable_text (prescription pd)
           @ '',\"confidence_score\":null,\"raw_text\":null}''))
   \<and> (prescription pd = None \<or> prescription pd = Some [] \<longrightarrow>
      get_prop (createPatient_payload pd) ''prescription'' = Inr JNull
      \<and> req_body (createPatient_request pd) = TextBody
          (''{\"name\":'' @ json_quote (name pd)
           @ '',\"date_of_birth\":'' @ json_quote (date_of_birth pd)
           @ '',\"diagnosis\":'' @ nullable_text (diagnosis pd)
           @ '',\"prescription\":null,\"confidence_score\":null,\"raw_text\":null}''))"
    by (auto simp add: field createPatient_body_text js_or_null_falsy nullable_text_falsy)
  from sent createPatient_on_answer createPatient_on_rejection show ?thesis by blast
qed

theorem createPatient_falsy_fields_are_null_witness:
  "createPatient
     (\<lambda>r. if req_body r = TextBody ''{\"name\":\"Ann\",\"date_of_birth\":\"1990-01-01\",\"diagnosis\":null,\"prescription\":null,\"confidence_score\":null,\"raw_text\":null}''
           then Inr \<lparr>status = 201, json = Inr (JObj [(''patient'', JObj [(''id'', JStr ''7'')])])\<rparr>
           else Inl (TransportError ''unexpected body''))
     \<lparr>name = ''Ann'', date_of_birth = ''1990-01-01'', diagnosis = Some [], prescription = None\<rparr>
   = Inr (JObj [(''id'', JStr ''7'')])
   \<and> get_prop (createPatient_payload
      \<lparr>name = ''Ann'', date_of_birth = ''1990-01-01'', diagnosis = Some [], prescription = None\<rparr>)
      ''diagnosis'' = Inr JNull
   \<and> get_prop (createPatient_payload
      \<lparr>name = ''Ann'', date_of_birth = ''1990-01-01'', diagnosis = Some [], prescription = None\<rparr>)
      ''prescription'' = Inr JNull"
proof -
  let ?pd = "\<lparr>name = ''Ann'', date_of_birth = ''1990-01-01'', diagnosis = Some [], prescription = None\<rparr>"
  let ?a = "\<lparr>status = 201, json = Inr (JObj [(''patient'', JObj [(''id'', JStr ''7'')])])\<rparr>"
  let ?f = "\<lambda>r. if req_body r = TextBody ''{\"name\":\"Ann\",\"date_of_birth\":\"1990-01-01\",\"diagnosis\":null,\"prescription\":null,\"confidence_score\":null,\"raw_text\":null}''
           then Inr ?a else Inl (TransportError ''unexpected body'')"
  note T = createPatient_falsy_fields_are_null [of ?pd]
  from T have body: "req_body (createPatient_request ?pd) = TextBody ''{\"name\":\"Ann\",\"date_of_birth\":\"1990-01-01\",\"diagnosis\":null,\"prescription\":null,\"confidence_score\":null,\"raw_text\":null}''"
    and nulls: "get_prop (createPatient_payload ?pd) ''diagnosis'' = Inr JNull"
      "get_prop (createPatient_payload ?pd) ''prescription'' = Inr JNull"
    by (simp_all add: json_quote_samples nullable_text_def)
  note tie = T [THEN conjunct2, THEN conjunct2, THEN conjunct1, rule_format, of ?f ?a]
  have "createPatient ?f ?pd = Inr (JObj [(''id'', JStr ''7'')])"
    using tie by (simp add: body ok_def await_def)
  with nulls show ?thesis by simp
qed


subsection \<open>Failures and defaults of the patient operations\<close>

text \<open>
  C3. When the transport answers with a response that is not ok, each of the five patient
  operations rejects with \<^verbatim>\<open>Error\<close> carrying its own fixed message, whatever the
  status code and whatever the body.
\<close>

theorem patient_operations_fixed_failure_messages:
  assumes "\<not> ok response"
  shows "(fetch (createPatient_request patientData) = Inr response \<longrightarrow>
            createPatient fetch patientData = Inl (Error ''Failed to create patient''))
       \<and> (fetch getPatients_request = Inr response \<longrightarrow>
            getPatients fetch = Inl (Error ''Failed to fetch patients''))
       \<and> (fetch (getPatient_request patient_id) = Inr response \<longrightarrow>
            getPatient fetch patient_id = Inl (Error ''Failed to fetch patient''))
       \<and> (fetch (updatePatient_request patient_id patientUpdate) = Inr response \<longrightarrow>
            updatePatient fetch patient_id patientUpdate = Inl (Error ''Failed to update patient''))
       \<and> (fetch (deletePatient_request patient_id) = Inr response \<longrightarrow>
            deletePatient fetch patient_id = Inl (Error ''Failed to delete patient''))"
  using assms
  by (simp add: createPatient_def getPatients_def getPatient_def updatePatient_def
      deletePatient_def await_Inr)

theorem patient_operations_fixed_failure_messages_witness:
  "\<not> ok \<lparr>status = 500, json = Inr (JObj [(''patient'', JObj [(''id'', JStr ''7'')]), (''detail'', JStr ''boom'')])\<rparr>
   \<and> createPatient (\<lambda>r. Inr \<lparr>status = 500, json = Inr (JObj [(''patient'', JObj [(''id'', JStr ''7'')]), (''detail'', JStr ''boom'')])\<rparr>)
        \<lparr>name = ''Ann'', date_of_birth = ''1990-01-01'', diagnosis = None, prescription = None\<rparr>
       = Inl (Error ''Failed to create patient'')
   \<and> getPatients (\<lambda>r. Inr \<lparr>status = 500, json = Inr (JObj [(''patient'', JObj [(''id'', JStr ''7'')]), (''detail'', JStr ''boom'')])\<rparr>)
       = Inl (Error ''Failed to fetch patients'')
   \<and> getPatient (\<lambda>r. Inr \<lparr>status = 500, json = Inr (JObj [(''patient'', JObj [(''id'', JStr ''7'')]), (''detail'', JStr ''boom'')])\<rparr>) ''7''
       = Inl (Error ''Failed to fetch patient'')
   \<and> updatePatient (\<lambda>r. Inr \<lparr>status = 500, json = Inr (JObj [(''patient'', JObj [(''id'', JStr ''7'')]), (''detail'', JStr ''boom'')])\<rparr>) ''7''
        \<lparr>upd_name = None, upd_date_of_birth = None, upd_diagnosis = Some ''flu'', upd_prescription = None\<rparr>
       = Inl (Error ''Failed to update patient'')
   \<and> deletePatient (\<lambda>r. Inr \<lparr>status = 500, json = Inr (JObj [(''patient'', JObj [(''id'', JStr ''7'')]), (''detail'', JStr ''boom'')])\<rparr>) ''7''
       = Inl (Error ''Failed to delete patient'')"
proof -
  let ?r = "\<lparr>status = 500, json = Inr (JObj [(''patient'', JObj [(''id'', JStr ''7'')]), (''detail'', JStr ''boom'')])\<rparr>"
  have bad: "\<not> ok ?r" by (simp add: ok_def)
  from patient_operations_fixed_failure_messages [OF bad, of "\<lambda>r. Inr ?r"
      "\<lparr>name = ''Ann'', date_of_birth = ''1990-01-01'', diagnosis = None, prescription = None\<rparr>"
      "''7''"
      "\<lparr>upd_name = None, upd_date_of_birth = None, upd_diagnosis = Some ''flu'', upd_prescription = None\<rparr>"]
  show ?thesis using bad by simp
qed

text \<open>
  C4, as the spec states it: on an ok response whose JSON body has no \<^verbatim>\<open>patients\<close>
  key, \<^verbatim>\<open>getPatients\<close> returns the empty array rather than failing. The body
  \<^verbatim>\<open>null\<close> has no such key, and there the read of \<^verbatim>\<open>result.patients\<close> throws.
\<close>

theorem getPatients_null_body_rejects:
  "ok \<lparr>status = 200, json = Inr JNull\<rparr>
   \<and> getPatients (answering \<lparr>status = 200, json = Inr JNull\<rparr>) = Inl TypeError"
  by (simp add: getPatients_def answering_def await_def ok_def)

text \<open>
  C4, amended. On an ok response with any parsed body \<open>result\<close>: when the body is
  \<^verbatim>\<open>null\<close> the read of its property throws and \<^verbatim>\<open>getPatients\<close> rejects with a
  \<^verbatim>\<open>TypeError\<close>; when it is anything else without a \<^verbatim>\<open>patients\<close> key (the object
  \<^verbatim>\<open>{}\<close>, and also an array, a string, a number or a boolean) the result is the empty
  array; when it is an object with an array under \<^verbatim>\<open>patients\<close> the result is that
  array; and in general a value under \<^verbatim>\<open>patients\<close> is returned when it is truthy and
  replaced by the empty array when it is falsy. (\<^verbatim>\<open>JSON.parse\<close> never yields
  \<^verbatim>\<open>undefined\<close>; the model reads it like \<^verbatim>\<open>null\<close>.)
\<close>

theorem getPatients_on_every_body:
  assumes "fetch getPatients_request = Inr response" and "ok response"
    and "json response = Inr result"
  shows "(result = JNull \<or> result = JUndefined \<longrightarrow> getPatients fetch = Inl TypeError)
       \<and> (result \<noteq> JNull \<and> result \<noteq> JUndefined
            \<and> (\<forall>kvs. result = JObj kvs \<longrightarrow> map_of kvs ''patients'' = None)
          \<longrightarrow> getPatients fetch = Inr (JArr []))
       \<and> (\<forall>kvs ps. result = JObj kvs \<and> map_of kvs ''patients'' = Some (JArr ps)
          \<longrightarrow> getPatients fetch = Inr (JArr ps))
       \<and> (\<forall>kvs p. result = JObj kvs \<and> map_of kvs ''patients'' = Some p
          \<longrightarrow> getPatients fetch = Inr (if truthy p then p else JArr []))"
proof -
  have run: "getPatients fetch = await (get_prop result ''patients'') (\<lambda>patients. Inr (js_or patients (JArr [])))"
    using assms by (simp add: getPatients_def await_Inr)
  show ?thesis
    unfolding run by (cases result) (auto simp add: await_def js_or_def)
qed

theorem getPatients_on_every_body_witness:
  "getPatients (\<lambda>r. Inr \<lparr>status = 200, json = Inr (JObj [])\<rparr>) = Inr (JArr [])
   \<and> getPatients (\<lambda>r. Inr \<lparr>status = 200, json = Inr (JArr [JStr ''x''])\<rparr>) = Inr (JArr [])
   \<and> getPatients (\<lambda>r. Inr \<lparr>status = 200, json = Inr (JObj [(''patients'', JArr [JObj [(''id'', JStr ''7'')]])])\<rparr>)
       = Inr (JArr [JObj [(''id'', JStr ''7'')]])
   \<and> getPatients (\<lambda>r. Inr \<lparr>status = 200, json = Inr JNull\<rparr>) = Inl TypeError"
proof -
  have a: "getPatients (\<lambda>r. Inr \<lparr>status = 200, json = Inr (JObj [])\<rparr>) = Inr (JArr [])"
    using getPatients_on_every_body [of "\<lambda>r. Inr \<lparr>status = 200, json = Inr (JObj [])\<rparr>"
        "\<lparr>status = 200, json = Inr (JObj [])\<rparr>" "JObj []"]
    by (simp add: ok_def)
  have b: "getPatients (\<lambda>r. Inr \<lparr>status = 200, json = Inr (JArr [JStr ''x''])\<rparr>) = Inr (JArr [])"
    using getPatients_on_every_body [of "\<lambda>r. Inr \<lparr>status = 200, json = Inr (JArr [JStr ''x''])\<rparr>"
        "\<lparr>status = 200, json = Inr (JArr [JStr ''x''])\<rparr>" "JArr [JStr ''x'']"]
    by (simp add: ok_def)
  have c: "getPatients (\<lambda>r. Inr \<lparr>status = 200, json = Inr (JObj [(''patients'', JArr [JObj [(''id'', JStr ''7'')]])])\<rparr>)
       = Inr (JArr [JObj [(''id'', JStr ''7'')]])"
    using getPatients_on_every_body
        [of "\<lambda>r. Inr \<lparr>status = 200, json = Inr (JObj [(''patients'', JArr [JObj [(''id'', JStr ''7'')]])])\<rparr>"
        "\<lparr>status = 200, json = Inr (JObj [(''patients'', JArr [JObj [(''id'', JStr ''7'')]])])\<rparr>"
        "JObj [(''patients'', JArr [JObj [(''id'', JStr ''7'')]])]"]
    by (simp add: ok_def)
  have d: "getPatients (\<lambda>r. Inr \<lparr>status = 200, json = Inr JNull\<rparr>) = Inl TypeError"
    using getPatients_on_every_body [of "\<lambda>r. Inr \<lparr>status = 200, json = Inr JNull\<rparr>"
        "\<lparr>status = 200, json = Inr JNull\<rparr>" "JNull"]
    by (simp add: ok_def)
  from a b c d show ?thesis by simp
qed


subsection \<open>Document upload\<close>

text \<open>
  C8. For every file, \<^verbatim>\<open>uploadDocument\<close> sends a form with exactly one entry, named
  \<^verbatim>\<open>file\<close> and holding that file, and when the transport answers it returns the
  answer's \<^verbatim>\<open>data\<close>.
\<close>

theorem uploadDocument_single_file_field:
  "req_body (uploadDocument_request env f) = FormBody [(''file'', FormFile f)]
   \<and> (\<forall>http response. http (uploadDocument_request env f) = Inr response \<longrightarrow>
         uploadDocument http env f = Inr (data response))"
  by (simp add: uploadDocument_request_def uploadDocument_def axios_request_def
      FormData_append_def await_Inr Let_def)

theorem uploadDocument_single_file_field_witness:
  "req_body (uploadDocument_request None (File ''scan.pdf'' ''%PDF-1.7'')) =
     FormBody [(''file'', FormFile (File ''scan.pdf'' ''%PDF-1.7''))]
   \<and> uploadDocument (\<lambda>r. Inr \<lparr>data = JObj [(''patient_name'', JStr ''Ann'')]\<rparr>) None
        (File ''scan.pdf'' ''%PDF-1.7'')
      = Inr (JObj [(''patient_name'', JStr ''Ann'')])"
  using uploadDocument_single_file_field [of None "File ''scan.pdf'' ''%PDF-1.7''"]
  by simp

subsection \<open>Form data of the patient-aware chat\<close>

lemma foldl_append_files:
  "foldl (\<lambda>fd f. fd @ [(k, FormFile f)]) acc fs = acc @ map (\<lambda>f. (k, FormFile f)) fs"
  by (induction fs arbitrary: acc) simp_all

lemma sendMessageWithPatientContext_formData_eq:
  "sendMessageWithPatientContext_formData sessionId query files =
     [(''session_id'', FormText sessionId), (''query'', FormText query),
      (''include_all_patients'', FormText ''true''), (''max_patients'', FormText ''10'')]
     @ map (\<lambda>f. (''files'', FormFile f)) (case files of None \<Rightarrow> [] | Some fs \<Rightarrow> fs)"
  by (simp add: sendMessageWithPatientContext_formData_def Let_def FormData_append_def
      foldl_append_files split: option.split)

text \<open>
  C6. \<^verbatim>\<open>sendMessageWithPatientContext("s1", "hello", [])\<close> sends a multipart form with
  exactly the four fields \<^verbatim>\<open>session_id=s1\<close>, \<^verbatim>\<open>query=hello\<close>,
  \<^verbatim>\<open>include_all_patients=true\<close>, \<^verbatim>\<open>max_patients=10\<close> and no file entry; on every
  call the form starts with the session id, the query and the two flags at those fixed
  values, followed by one \<^verbatim>\<open>files\<close> entry per attached file. The request carrying
  that form is the one the function posts through \<^verbatim>\<open>fetch\<close>: the answer to it decides
  the outcome, and a rejection of it is passed on.
\<close>

theorem sendMessageWithPatientContext_form_fields:
  "sendMessageWithPatientContext_request ''s1'' ''hello'' (Some []) =
     \<lparr>req_base = PageOrigin, req_url = ''/api/patients/context/chat-query'',
      req_method = POST, req_headers = [],
      req_body = FormBody [(''session_id'', FormText ''s1''), (''query'', FormText ''hello''),
               (''include_all_patients'', FormText ''true''), (''max_patients'', FormText ''10'')]\<rparr>
   \<and> (\<forall>sessionId query files.
        req_body (sendMessageWithPatientContext_request sessionId query files) =
          FormBody ([(''session_id'', FormText sessionId), (''query'', FormText query),
                     (''include_all_patients'', FormText ''true''),
                     (''max_patients'', FormText ''10'')]
                    @ map (\<lambda>f. (''files'', FormFile f))
                        (case files of None \<Rightarrow> [] | Some fs \<Rightarrow> fs)))
   \<and> (\<forall>fetch sessionId query files response.
        fetch (sendMessageWithPatientContext_request sessionId query files) = Inr response \<longrightarrow>
        sendMessageWithPatientContext fetch sessionId query files =
          (if ok response then json response else Inl (Error ''Failed to get chat response'')))
   \<and> (\<forall>fetch sessionId query files e.
        fetch (sendMessageWithPatientContext_request sessionId query files) = Inl e \<longrightarrow>
        sendMessageWithPatientContext fetch sessionId query files = Inl e)"
  by (simp add: sendMessageWithPatientContext_request_def fetch_request_def
      sendMessageWithPatientContext_formData_eq sendMessageWithPatientContext_def
      await_Inr await_Inl)

theorem sendMessageWithPatientContext_form_fields_witness:
  "sendMessageWithPatientContext
     (\<lambda>r. if r = \<lparr>req_base = PageOrigin, req_url = ''/api/patients/context/chat-query'',
                   req_method = POST, req_headers = [],
                   req_body = FormBody [(''session_id'', FormText ''s1''), (''query'', FormText ''hello''),
                     (''include_all_patients'', FormText ''true''), (''max_patients'', FormText ''10'')]\<rparr>
           then Inr \<lparr>status = 200, json = Inr (JObj [(''answer'', JStr ''hi'')])\<rparr>
           else Inl (TransportError ''unexpected request''))
     ''s1'' ''hello'' (Some [])
   = Inr (JObj [(''answer'', JStr ''hi'')])"
proof -
  let ?q = "\<lparr>req_base = PageOrigin, req_url = ''/api/patients/context/chat-query'',
                   req_method = POST, req_headers = [],
                   req_body = FormBody [(''session_id'', FormText ''s1''), (''query'', FormText ''hello''),
                     (''include_all_patients'', FormText ''true''), (''max_patients'', FormText ''10'')]\<rparr>"
  let ?a = "\<lparr>status = 200, json = Inr (JObj [(''answer'', JStr ''hi'')])\<rparr>"
  let ?f = "\<lambda>r. if r = ?q then Inr ?a else Inl (TransportError ''unexpected request'')"
  note T = sendMessageWithPatientContext_form_fields
  from T have req: "sendMessageWithPatientContext_request ''s1'' ''hello'' (Some []) = ?q"
    by (rule conjunct1)
  note tie = T [THEN conjunct2, THEN conjunct2, THEN conjunct1, rule_format,
      of ?f "''s1''" "''hello''" "Some []" ?a]
  from tie show ?thesis unfolding req by (simp add: ok_def)
qed

subsection \<open>The patient context query\<close>

lemma getPatientContext_default_request:
  "req_url (getPatientContext_request None None) =
     ''/api/patients/context/chat?limit=10&include_recent=true''"
  by code_simp

lemma getPatientContext_two_ids_request:
  "getPatientContext_request (Some [''p1'', ''p2'']) (Some 5) =
     \<lparr>req_base = PageOrigin,
      req_url = ''/api/patients/context/chat?patient_ids=p1%2Cp2&limit=5&include_recent=true'',
      req_method = GET, req_headers = [], req_body = NoBody\<rparr>
   \<and> getPatientContext_params (Some [''p1'', ''p2'']) (Some 5) =
        [(''patient_ids'', ''p1,p2''), (''limit'', ''5''), (''include_recent'', ''true'')]"
  by code_simp


text \<open>
  C10. \<^verbatim>\<open>getPatientContext\<close> with an empty list of patient ids behaves as with the list
  omitted: for every limit the two calls send the same request and end the same way, and
  the parameters are \<^verbatim>\<open>limit\<close> and \<^verbatim>\<open>include_recent\<close> only, with no
  \<^verbatim>\<open>patient_ids\<close> parameter. Both calls hand that one request to \<^verbatim>\<open>fetch\<close>.
\<close>

theorem getPatientContext_empty_ids_as_omitted:
  "getPatientContext_request (Some []) limit_arg = getPatientContext_request None limit_arg
   \<and> getPatientContext fetch (Some []) limit_arg = getPatientContext fetch None limit_arg
   \<and> getPatientContext_params (Some []) limit_arg =
        [(''limit'', number_toString (case limit_arg of None \<Rightarrow> 10 | Some n \<Rightarrow> n)),
         (''include_recent'', ''true'')]
   \<and> getPatientContext_params None limit_arg =
        [(''limit'', number_toString (case limit_arg of None \<Rightarrow> 10 | Some n \<Rightarrow> n)),
         (''include_recent'', ''true'')]
   \<and> hands_to (\<lambda>t. getPatientContext t (Some []) limit_arg)
        (getPatientContext_request None limit_arg)
   \<and> hands_to (\<lambda>t. getPatientContext t None limit_arg)
        (getPatientContext_request None limit_arg)"
proof -
  have same: "getPatientContext_request (Some []) limit_arg = getPatientContext_request None limit_arg
   \<and> getPatientContext fetch (Some []) limit_arg = getPatientContext fetch None limit_arg
   \<and> getPatientContext_params (Some []) limit_arg =
        [(''limit'', number_toString (case limit_arg of None \<Rightarrow> 10 | Some n \<Rightarrow> n)),
         (''include_recent'', ''true'')]
   \<and> getPatientContext_params None limit_arg =
        [(''limit'', number_toString (case limit_arg of None \<Rightarrow> 10 | Some n \<Rightarrow> n)),
         (''include_recent'', ''true'')]"
    by (simp add: getPatientContext_request_def getPatientContext_def getPatientContext_params_def
      URLSearchParams_append_def Let_def)
  have hand: "hands_to (\<lambda>t. getPatientContext t ids limit_arg)
        (getPatientContext_request ids limit_arg)" for ids
    unfolding getPatientContext_def by (rule hands_to_await)
  have empty: "hands_to (\<lambda>t. getPatientContext t (Some []) limit_arg)
        (getPatientContext_request None limit_arg)"
    using hand [of "Some []"] same by simp
  from same empty hand [of None] show ?thesis by simp
qed

theorem getPatientContext_empty_ids_as_omitted_witness:
  "getPatientContext
     (\<lambda>r. if req_url r = ''/api/patients/context/chat?limit=10&include_recent=true''
           then Inl (TransportError ''a query with no patient_ids'')
           else Inr \<lparr>status = 200, json = Inr JNull\<rparr>)
     (Some []) None
   = Inl (TransportError ''a query with no patient_ids'')
   \<and> getPatientContext
     (\<lambda>r. if req_url r = ''/api/patients/context/chat?limit=10&include_recent=true''
           then Inl (TransportError ''a query with no patient_ids'')
           else Inr \<lparr>status = 200, json = Inr JNull\<rparr>)
     None None
   = Inl (TransportError ''a query with no patient_ids'')"
proof -
  note T = getPatientContext_empty_ids_as_omitted [where limit_arg = None]
  from T have e: "hands_to (\<lambda>t. getPatientContext t (Some []) None) (getPatientContext_request None None)"
    and n: "hands_to (\<lambda>t. getPatientContext t None None) (getPatientContext_request None None)"
    by simp_all
  have a: "getPatientContext
     (\<lambda>r. if req_url r = ''/api/patients/context/chat?limit=10&include_recent=true''
           then Inl (TransportError ''a query with no patient_ids'')
           else Inr \<lparr>status = 200, json = Inr JNull\<rparr>)
     (Some []) None = Inl (TransportError ''a query with no patient_ids'')"
    by (intro hands_to_rejection [OF e]) (simp add: getPatientContext_default_request)
  have b: "getPatientContext
     (\<lambda>r. if req_url r = ''/api/patients/context/chat?limit=10&include_recent=true''
           then Inl (TransportError ''a query with no patient_ids'')
           else Inr \<lparr>status = 200, json = Inr JNull\<rparr>)
     None None = Inl (TransportError ''a query with no patient_ids'')"
    by (intro hands_to_rejection [OF n]) (simp add: getPatientContext_default_request)
  from a b show ?thesis by simp
qed

text \<open>
  C7, as the spec states it: the query string of \<^verbatim>\<open>getPatientContext(["p1","p2"], 5)\<close>
  contains the text \<^verbatim>\<open>patient_ids=p1,p2\<close>. It does not: \<^verbatim>\<open>URLSearchParams\<close>
  percent-encodes the comma of the joined ids.
\<close>

theorem getPatientContext_query_has_no_literal_comma:
  "\<not> sublist ''patient_ids=p1,p2''
       (req_url (getPatientContext_request (Some [''p1'', ''p2'']) (Some 5)))"
  by code_simp

text \<open>
  C7, amended. \<^verbatim>\<open>getPatientContext(["p1","p2"], 5)\<close> issues a GET whose parameters are
  \<^verbatim>\<open>patient_ids\<close> with the comma-joined value \<^verbatim>\<open>p1,p2\<close>, \<^verbatim>\<open>limit\<close> with value
  \<^verbatim>\<open>5\<close> and \<^verbatim>\<open>include_recent\<close> with value \<^verbatim>\<open>true\<close>; in the query string the comma
  is written \<^verbatim>\<open>%2C\<close>, so the URL is
  \<^verbatim>\<open>/api/patients/context/chat?patient_ids=p1%2Cp2&limit=5&include_recent=true\<close>.
  That request is the one the call hands to \<^verbatim>\<open>fetch\<close>: the answer to it decides the
  outcome, and a rejection of it is passed on.
\<close>

theorem getPatientContext_two_ids_limit_5:
  "getPatientContext_request (Some [''p1'', ''p2'']) (Some 5) =
     \<lparr>req_base = PageOrigin,
      req_url = ''/api/patients/context/chat?patient_ids=p1%2Cp2&limit=5&include_recent=true'',
      req_method = GET, req_headers = [], req_body = NoBody\<rparr>
   \<and> getPatientContext_params (Some [''p1'', ''p2'']) (Some 5) =
        [(''patient_ids'', ''p1,p2''), (''limit'', ''5''), (''include_recent'', ''true'')]
   \<and> (\<forall>fetch response.
         fetch (getPatientContext_request (Some [''p1'', ''p2'']) (Some 5)) = Inr response \<longrightarrow>
         getPatientContext fetch (Some [''p1'', ''p2'']) (Some 5) =
           (if ok response then json response else Inl (Error ''Failed to get patient context'')))
   \<and> (\<forall>fetch e.
         fetch (getPatientContext_request (Some [''p1'', ''p2'']) (Some 5)) = Inl e \<longrightarrow>
         getPatientContext fetch (Some [''p1'', ''p2'']) (Some 5) = Inl e)"
proof -
  have ties:
    "\<forall>fetch response.
         fetch (getPatientContext_request (Some [''p1'', ''p2'']) (Some 5)) = Inr response \<longrightarrow>
         getPatientContext fetch (Some [''p1'', ''p2'']) (Some 5) =
           (if ok response then json response else Inl (Error ''Failed to get patient context''))"
    "\<forall>fetch e.
         fetch (getPatientContext_request (Some [''p1'', ''p2'']) (Some 5)) = Inl e \<longrightarrow>
         getPatientContext fetch (Some [''p1'', ''p2'']) (Some 5) = Inl e"
    by (simp_all add: getPatientContext_def await_Inr await_Inl)
  from getPatientContext_two_ids_request ties show ?thesis by (intro conjI) simp_all
qed

theorem getPatientContext_two_ids_limit_5_witness:
  "getPatientContext
     (\<lambda>r. if r = \<lparr>req_base = PageOrigin,
              req_url = ''/api/patients/context/chat?patient_ids=p1%2Cp2&limit=5&include_recent=true'',
              req_method = GET, req_headers = [], req_body = NoBody\<rparr>
           then Inr \<lparr>status = 200, json = Inr (JObj [(''patients'', JArr [])])\<rparr>
           else Inl (TransportError ''unexpected request''))
     (Some [''p1'', ''p2'']) (Some 5)
   = Inr (JObj [(''patients'', JArr [])])"
proof -
  let ?q = "\<lparr>req_base = PageOrigin,
              req_url = ''/api/patients/context/chat?patient_ids=p1%2Cp2&limit=5&include_recent=true'',
              req_method = GET, req_headers = [], req_body = NoBody\<rparr>"
  let ?a = "\<lparr>status = 200, json = Inr (JObj [(''patients'', JArr [])])\<rparr>"
  let ?f = "\<lambda>r. if r = ?q then Inr ?a else Inl (TransportError ''unexpected request'')"
  note T = getPatientContext_two_ids_limit_5
  note req = T [THEN conjunct1]
  note tie = T [THEN conjunct2, THEN conjunct2, THEN conjunct1, rule_format, of ?f ?a]
  from tie show ?thesis unfolding req by (simp add: ok_def)
qed

subsection \<open>Base address\<close>

text \<open>
  C2, as the spec states it: every operation sends its request against the configured
  base address. \<^verbatim>\<open>createPatient\<close> does not: it calls \<^verbatim>\<open>fetch\<close> with a relative URL,
  which the browser resolves against the page's own origin.
\<close>

theorem createPatient_bypasses_base_url:
  "\<not> uses_base_url None (createPatient_request
      \<lparr>name = ''Ann'', date_of_birth = ''1990-01-01'', diagnosis = None, prescription = None\<rparr>)"
  by (simp add: uses_base_url_def createPatient_request_def fetch_request_def)

text \<open>
  C2, amended. The base address is the environment setting, or
  \<^verbatim>\<open>http://localhost:8000\<close> when the setting is absent or empty. The five operations of
  the shared axios instance (\<^verbatim>\<open>uploadDocument\<close>, \<^verbatim>\<open>uploadDocuments\<close>,
  \<^verbatim>\<open>getSupportedTypes\<close>, \<^verbatim>\<open>sendMessage\<close>, \<^verbatim>\<open>refreshKnowledgeBase\<close>) send their
  requests against it. The eight others (the five patient operations,
  \<^verbatim>\<open>sendMessageWithPatientContext\<close>, \<^verbatim>\<open>getPatientContext\<close>, \<^verbatim>\<open>startChatSession\<close>)
  call \<^verbatim>\<open>fetch\<close> with a relative URL, resolved against the page's origin. Each of
  the thirteen operations hands the request named here to its transport.
\<close>

theorem base_url_of_every_operation:
  "API_BASE_URL None = ''http://localhost:8000''
   \<and> API_BASE_URL (Some []) = ''http://localhost:8000''
   \<and> API_BASE_URL (Some (c # s)) = c # s
   \<and> uses_base_url env (uploadDocument_request env f)
   \<and> uses_base_url env (uploadDocuments_request env files)
   \<and> uses_base_url env (getSupportedTypes_request env)
   \<and> uses_base_url env (sendMessage_request env message)
   \<and> uses_base_url env (refreshKnowledgeBase_request env)
   \<and> req_base (createPatient_request patientData) = PageOrigin
   \<and> req_base getPatients_request = PageOrigin
   \<and> req_base (getPatient_request patient_id) = PageOrigin
   \<and> req_base (updatePatient_request patient_id patientUpdate) = PageOrigin
   \<and> req_base (deletePatient_request patient_id) = PageOrigin
   \<and> req_base (sendMessageWithPatientContext_request sessionId query attached) = PageOrigin
   \<and> req_base (getPatientContext_request patientIds limit_arg) = PageOrigin
   \<and> req_base startChatSession_request = PageOrigin
   \<and> hands_to (\<lambda>t. uploadDocument t env f) (uploadDocument_request env f)
   \<and> hands_to (\<lambda>t. uploadDocuments t env files) (uploadDocuments_request env files)
   \<and> hands_to (\<lambda>t. getSupportedTypes t env) (getSupportedTypes_request env)
   \<and> hands_to (\<lambda>t. sendMessage t env message) (sendMessage_request env message)
   \<and> hands_to (\<lambda>t. refreshKnowledgeBase t env) (refreshKnowledgeBase_request env)
   \<and> hands_to (\<lambda>t. createPatient t patientData) (createPatient_request patientData)
   \<and> hands_to getPatients getPatients_request
   \<and> hands_to (\<lambda>t. getPatient t patient_id) (getPatient_request patient_id)
   \<and> hands_to (\<lambda>t. updatePatient t patient_id patientUpdate)
        (updatePatient_request patient_id patientUpdate)
   \<and> hands_to (\<lambda>t. deletePatient t patient_id) (deletePatient_request patient_id)
   \<and> hands_to (\<lambda>t. sendMessageWithPatientContext t sessionId query attached)
        (sendMessageWithPatientContext_request sessionId query attached)
   \<and> hands_to (\<lambda>t. getPatientContext t patientIds limit_arg)
        (getPatientContext_request patientIds limit_arg)
   \<and> hands_to startChatSession startChatSession_request"
proof -
  have bases: "API_BASE_URL None = ''http://localhost:8000''
   \<and> API_BASE_URL (Some []) = ''http://localhost:8000''
   \<and> API_BASE_URL (Some (c # s)) = c # s
   \<and> uses_base_url env (uploadDocument_request env f)
   \<and> uses_base_url env (uploadDocuments_request env files)
   \<and> uses_base_url env (getSupportedTypes_request env)
   \<and> uses_base_url env (sendMessage_request env message)
   \<and> uses_base_url env (refreshKnowledgeBase_request env)
   \<and> req_base (createPatient_request patientData) = PageOrigin
   \<and> req_base getPatients_request = PageOrigin
   \<and> req_base (getPatient_request patient_id) = PageOrigin
   \<and> req_base (updatePatient_request patient_id patientUpdate) = PageOrigin
   \<and> req_base (deletePatient_request patient_id) = PageOrigin
   \<and> req_base (sendMessageWithPatientContext_request sessionId query attached) = PageOrigin
   \<and> req_base (getPatientContext_request patientIds limit_arg) = PageOrigin
   \<and> req_base startChatSession_request = PageOrigin"
    by (simp add: API_BASE_URL_def uses_base_url_def api_def axios_request_def fetch_request_def
      uploadDocument_request_def uploadDocuments_request_def getSupportedTypes_request_def
      sendMessage_request_def refreshKnowledgeBase_request_def createPatient_request_def
      getPatients_request_def getPatient_request_def updatePatient_request_def
      deletePatient_request_def sendMessageWithPatientContext_request_def
      getPatientContext_request_def startChatSession_request_def Let_def)
  from bases show ?thesis by (simp add: hands_to_operations)
qed

theorem base_url_of_every_operation_witness:
  "uploadDocument
     (\<lambda>r. if req_base r = BaseURL ''http://localhost:8000''
           then Inl (TransportError ''no route to the configured base'')
           else Inr \<lparr>data = JNull\<rparr>)
     None (File ''scan.pdf'' ''%PDF-1.7'')
   = Inl (TransportError ''no route to the configured base'')
   \<and> createPatient
     (\<lambda>r. if req_base r = PageOrigin
           then Inl (TransportError ''no route to the page origin'')
           else Inr \<lparr>status = 201, json = Inr JNull\<rparr>)
     \<lparr>name = ''Ann'', date_of_birth = ''1990-01-01'', diagnosis = None, prescription = None\<rparr>
   = Inl (TransportError ''no route to the page origin'')"
proof -
  let ?file = "File ''scan.pdf'' ''%PDF-1.7''"
  let ?pd = "\<lparr>name = ''Ann'', date_of_birth = ''1990-01-01'', diagnosis = None, prescription = None\<rparr>"
  note T = base_url_of_every_operation [where env = None and f = ?file and patientData = ?pd]
  from T have default: "API_BASE_URL None = ''http://localhost:8000''"
    and up_base: "uses_base_url None (uploadDocument_request None ?file)"
    and cp_base: "req_base (createPatient_request ?pd) = PageOrigin"
    and up_hand: "hands_to (\<lambda>t. uploadDocument t None ?file) (uploadDocument_request None ?file)"
    and cp_hand: "hands_to (\<lambda>t. createPatient t ?pd) (createPatient_request ?pd)"
    by simp_all
  have a: "uploadDocument
     (\<lambda>r. if req_base r = BaseURL ''http://localhost:8000''
           then Inl (TransportError ''no route to the configured base'')
           else Inr \<lparr>data = JNull\<rparr>) None ?file
     = Inl (TransportError ''no route to the configured base'')"
    using up_base default by (intro hands_to_rejection [OF up_hand]) (simp add: uses_base_url_def)
  have b: "createPatient
     (\<lambda>r. if req_base r = PageOrigin
           then Inl (TransportError ''no route to the page origin'')
           else Inr \<lparr>status = 201, json = Inr JNull\<rparr>) ?pd
     = Inl (TransportError ''no route to the page origin'')"
    using cp_base by (intro hands_to_rejection [OF cp_hand]) simp
  from a b show ?thesis by simp
qed

subsection \<open>Content types\<close>

text \<open>
  C5, as the spec states it: a multipart request sets no content type of its own.
  \<^verbatim>\<open>uploadDocument\<close> sends a multipart body and passes the header
  \<^verbatim>\<open>Content-Type: multipart/form-data\<close> itself.
\<close>

theorem uploadDocument_sets_multipart_content_type:
  "is_multipart (uploadDocument_request None (File ''scan.pdf'' ''%PDF-1.7''))
   \<and> content_type (uploadDocument_request None (File ''scan.pdf'' ''%PDF-1.7''))
       = Some ''multipart/form-data''"
  by (simp add: is_multipart_def content_type_def uploadDocument_request_def axios_request_def
      merge_headers_def api_def Let_def)

text \<open>
  C5, amended. The three requests with a JSON body (\<^verbatim>\<open>createPatient\<close>,
  \<^verbatim>\<open>updatePatient\<close>, \<^verbatim>\<open>sendMessage\<close>) carry the content type
  \<^verbatim>\<open>application/json\<close>. Of the three multipart requests,
  \<^verbatim>\<open>sendMessageWithPatientContext\<close> names no content type and leaves it to the
  transport, while \<^verbatim>\<open>uploadDocument\<close> and \<^verbatim>\<open>uploadDocuments\<close> pass
  \<^verbatim>\<open>multipart/form-data\<close> themselves. The seven other requests have no body. Each of
  the six operations with a body hands the request named here to its transport.
\<close>

theorem content_type_of_every_operation:
  "is_json_body (createPatient_request patientData)
   \<and> content_type (createPatient_request patientData) = Some ''application/json''
   \<and> is_json_body (updatePatient_request patient_id patientUpdate)
   \<and> content_type (updatePatient_request patient_id patientUpdate) = Some ''application/json''
   \<and> is_json_body (sendMessage_request env message)
   \<and> content_type (sendMessage_request env message) = Some ''application/json''
   \<and> is_multipart (sendMessageWithPatientContext_request sessionId query attached)
   \<and> content_type (sendMessageWithPatientContext_request sessionId query attached) = None
   \<and> is_multipart (uploadDocument_request env f)
   \<and> content_type (uploadDocument_request env f) = Some ''multipart/form-data''
   \<and> is_multipart (uploadDocuments_request env files)
   \<and> content_type (uploadDocuments_request env files) = Some ''multipart/form-data''
   \<and> req_body (getSupportedTypes_request env) = NoBody
   \<and> req_body getPatients_request = NoBody
   \<and> req_body (getPatient_request patient_id) = NoBody
   \<and> req_body (deletePatient_request patient_id) = NoBody
   \<and> req_body (refreshKnowledgeBase_request env) = NoBody
   \<and> req_body (getPatientContext_request patientIds limit_arg) = NoBody
   \<and> req_body startChatSession_request = NoBody
   \<and> hands_to (\<lambda>t. createPatient t patientData) (createPatient_request patientData)
   \<and> hands_to (\<lambda>t. updatePatient t patient_id patientUpdate)
        (updatePatient_request patient_id patientUpdate)
   \<and> hands_to (\<lambda>t. sendMessage t env message) (sendMessage_request env message)
   \<and> hands_to (\<lambda>t. sendMessageWithPatientContext t sessionId query attached)
        (sendMessageWithPatientContext_request sessionId query attached)
   \<and> hands_to (\<lambda>t. uploadDocument t env f) (uploadDocument_request env f)
   \<and> hands_to (\<lambda>t. uploadDocuments t env files) (uploadDocuments_request env files)"
proof -
  have types: "is_json_body (createPatient_request patientData)
   \<and> content_type (createPatient_request patientData) = Some ''application/json''
   \<and> is_json_body (updatePatient_request patient_id patientUpdate)
   \<and> content_type (updatePatient_request patient_id patientUpdate) = Some ''application/json''
   \<and> is_json_body (sendMessage_request env message)
   \<and> content_type (sendMessage_request env message) = Some ''application/json''
   \<and> is_multipart (sendMessageWithPatientContext_request sessionId query attached)
   \<and> content_type (sendMessageWithPatientContext_request sessionId query attached) = None
   \<and> is_multipart (uploadDocument_request env f)
   \<and> content_type (uploadDocument_request env f) = Some ''multipart/form-data''
   \<and> is_multipart (uploadDocuments_request env files)
   \<and> content_type (uploadDocuments_request env files) = Some ''multipart/form-data''
   \<and> req_body (getSupportedTypes_request env) = NoBody
   \<and> req_body getPatients_request = NoBody
   \<and> req_body (getPatient_request patient_id) = NoBody
   \<and> req_body (deletePatient_request patient_id) = NoBody
   \<and> req_body (refreshKnowledgeBase_request env) = NoBody
   \<and> req_body (getPatientContext_request patientIds limit_arg) = NoBody
   \<and> req_body startChatSession_request = NoBody"
    by (simp add: is_json_body_def is_multipart_def content_type_def merge_headers_def
      api_def axios_request_def fetch_request_def string_body_def
      createPatient_payload_def updatePatient_payload_def
      uploadDocument_request_def uploadDocuments_request_def getSupportedTypes_request_def
      sendMessage_request_def refreshKnowledgeBase_request_def createPatient_request_def
      getPatients_request_def getPatient_request_def updatePatient_request_def
      deletePatient_request_def sendMessageWithPatientContext_request_def
      getPatientContext_request_def startChatSession_request_def Let_def)
  from types show ?thesis by (simp add: hands_to_operations)
qed

theorem content_type_of_every_operation_witness:
  "createPatient
     (\<lambda>r. if is_json_body r \<and> content_type r = Some ''application/json''
           then Inl (TransportError ''a JSON request'')
           else Inr \<lparr>status = 201, json = Inr JNull\<rparr>)
     \<lparr>name = ''Ann'', date_of_birth = ''1990-01-01'', diagnosis = None, prescription = None\<rparr>
   = Inl (TransportError ''a JSON request'')
   \<and> sendMessageWithPatientContext
     (\<lambda>r. if is_multipart r \<and> content_type r = None
           then Inl (TransportError ''a form with no content type'')
           else Inr \<lparr>status = 200, json = Inr JNull\<rparr>)
     ''s1'' ''hello'' None
   = Inl (TransportError ''a form with no content type'')
   \<and> uploadDocument
     (\<lambda>r. if is_multipart r \<and> content_type r = Some ''multipart/form-data''
           then Inl (TransportError ''a form with its content type set'')
           else Inr \<lparr>data = JNull\<rparr>)
     None (File ''scan.pdf'' ''%PDF-1.7'')
   = Inl (TransportError ''a form with its content type set'')"
proof -
  let ?file = "File ''scan.pdf'' ''%PDF-1.7''"
  let ?pd = "\<lparr>name = ''Ann'', date_of_birth = ''1990-01-01'', diagnosis = None, prescription = None\<rparr>"
  note T = content_type_of_every_operation
    [where env = None and f = ?file and patientData = ?pd and sessionId = "''s1''"
       and query = "''hello''" and attached = None]
  from T have cp: "is_json_body (createPatient_request ?pd)"
      "content_type (createPatient_request ?pd) = Some ''application/json''"
    and sm: "is_multipart (sendMessageWithPatientContext_request ''s1'' ''hello'' None)"
      "content_type (sendMessageWithPatientContext_request ''s1'' ''hello'' None) = None"
    and up: "is_multipart (uploadDocument_request None ?file)"
      "content_type (uploadDocument_request None ?file) = Some ''multipart/form-data''"
    and cp_hand: "hands_to (\<lambda>t. createPatient t ?pd) (createPatient_request ?pd)"
    and sm_hand: "hands_to (\<lambda>t. sendMessageWithPatientContext t ''s1'' ''hello'' None)
        (sendMessageWithPatientContext_request ''s1'' ''hello'' None)"
    and up_hand: "hands_to (\<lambda>t. uploadDocument t None ?file) (uploadDocument_request None ?file)"
    by simp_all
  have a: "createPatient
     (\<lambda>r. if is_json_body r \<and> content_type r = Some ''application/json''
           then Inl (TransportError ''a JSON request'')
           else Inr \<lparr>status = 201, json = Inr JNull\<rparr>) ?pd
     = Inl (TransportError ''a JSON request'')"
    using cp by (intro hands_to_rejection [OF cp_hand]) simp
  have b: "sendMessageWithPatientContext
     (\<lambda>r. if is_multipart r \<and> content_type r = None
           then Inl (TransportError ''a form with no content type'')
           else Inr \<lparr>status = 200, json = Inr JNull\<rparr>) ''s1'' ''hello'' None
     = Inl (TransportError ''a form with no content type'')"
    using sm by (intro hands_to_rejection [OF sm_hand]) simp
  have c: "uploadDocument
     (\<lambda>r. if is_multipart r \<and> content_type r = Some ''multipart/form-data''
           then Inl (TransportError ''a form with its content type set'')
           else Inr \<lparr>data = JNull\<rparr>) None ?file
     = Inl (TransportError ''a form with its content type set'')"
    using up by (intro hands_to_rejection [OF up_hand]) simp
  from a b c show ?thesis by simp
qed

end
